theory Spec2Isabelle
  imports Main "HOL-Library.Sublist" "HOL-Library.AList"
begin

section \<open>Python string operations used by futfw\_automation.py\<close>

text \<open>
  The response text and the exception messages are modelled as \<open>string\<close>: a list of code
  points below 256 (a string decoded from JSON may hold any code point: see \<open>json\<close>
  below). Indices and the results of
  \<open>find\<close>/\<open>rfind\<close> are Python ints (\<open>int\<close>), so that the \<open>-1\<close> of a failed search is a
  value of the model and reaches the slice the way it does in the source.
\<close>

definition isspace :: "char \<Rightarrow> bool" where
  \<comment> \<open>\<open>str.isspace\<close> on the code points below 256: TAB..CR, FS..US, SPACE, NEL, NBSP.\<close>
  "isspace c = (c \<in> {CHR 0x09, CHR 0x0A, CHR 0x0B, CHR 0x0C, CHR 0x0D,
                       CHR 0x1C, CHR 0x1D, CHR 0x1E, CHR 0x1F, CHR 0x20, CHR 0x85, CHR 0xA0})"

definition py_strip :: "string \<Rightarrow> string" where
  \<comment> \<open>\<open>s.strip()\<close>: leading and trailing whitespace removed.\<close>
  "py_strip s = rev (dropWhile isspace (rev (dropWhile isspace s)))"

primrec py_in :: "string \<Rightarrow> string \<Rightarrow> bool" where
  \<comment> \<open>\<open>sub in s\<close> on strings: \<open>sub\<close> occurs in \<open>s\<close> as a contiguous substring.\<close>
  "py_in sub [] = (sub = [])"
| "py_in sub (c # cs) = (prefix sub (c # cs) \<or> py_in sub cs)"

primrec find_at :: "string \<Rightarrow> string \<Rightarrow> nat \<Rightarrow> int" where
  \<comment> \<open>left-to-right scan of the text that starts at index \<open>i\<close>: lowest match, or \<open>-1\<close>.\<close>
  "find_at sub [] i = (if sub = [] then int i else -1)"
| "find_at sub (c # cs) i = (if prefix sub (c # cs) then int i else find_at sub cs (Suc i))"

primrec rfind_at :: "string \<Rightarrow> string \<Rightarrow> nat \<Rightarrow> int \<Rightarrow> int" where
  \<comment> \<open>the same scan, remembering the highest match seen so far.\<close>
  "rfind_at sub [] i acc = (if sub = [] then int i else acc)"
| "rfind_at sub (c # cs) i acc =
     rfind_at sub cs (Suc i) (if prefix sub (c # cs) then int i else acc)"

definition py_index :: "int \<Rightarrow> nat \<Rightarrow> nat" where
  \<comment> \<open>how a slice bound is read against a length \<open>n\<close>: negative bounds count from the end,
      and every bound is clamped to \<open>0..n\<close>.\<close>
  "py_index i n = (if i < 0 then nat (max 0 (i + int n)) else min (nat i) n)"

definition py_find :: "string \<Rightarrow> string \<Rightarrow> int \<Rightarrow> int" where
  \<comment> \<open>\<open>s.find(sub, start)\<close>\<close>
  "py_find s sub start =
     (if int (length s) < start then -1
      else find_at sub (drop (py_index start (length s)) s) (py_index start (length s)))"

definition py_rfind :: "string \<Rightarrow> string \<Rightarrow> int" where
  \<comment> \<open>\<open>s.rfind(sub)\<close>\<close>
  "py_rfind s sub = rfind_at sub s 0 (-1)"

definition py_slice :: "string \<Rightarrow> int \<Rightarrow> int \<Rightarrow> string" where
  \<comment> \<open>\<open>s[a:b]\<close>\<close>
  "py_slice s a b =
     (let i = py_index a (length s); j = py_index b (length s) in take (j - i) (drop i s))"

section \<open>Extraction of the candidate JSON text (run\_futfw\_analysis, lines 95-110)\<close>

definition strip_fence :: "string \<Rightarrow> string" where
  \<comment> \<open>lines 96-103: the if / elif on markdown code fences; no else branch.\<close>
  "strip_fence analysis_text =
     (if py_in ''```json'' analysis_text then
        (let start = py_find analysis_text ''```json'' 0 + 7;
             end' = py_find analysis_text ''```'' start
         in py_strip (py_slice analysis_text start end'))
      else if py_in ''```'' analysis_text then
        (let start = py_find analysis_text ''```'' 0 + 3;
             end' = py_find analysis_text ''```'' start
         in py_strip (py_slice analysis_text start end'))
      else analysis_text)"

definition json_bounds :: "string \<Rightarrow> string option" where
  \<comment> \<open>lines 106-110 and the else of line 125: \<open>None\<close> is the "No valid JSON found" branch.\<close>
  "json_bounds analysis_text =
     (let start_idx = py_find analysis_text ''{'' 0;
          end_idx = py_rfind analysis_text ''}'' + 1
      in if start_idx \<noteq> -1 \<and> end_idx \<noteq> 0
         then Some (py_slice analysis_text start_idx end_idx)
         else None)"

definition json_candidate :: "string \<Rightarrow> string option" where
  \<comment> \<open>lines 95-110 as one step: the text handed to \<open>json.loads\<close>, if any.\<close>
  "json_candidate analysis_text = json_bounds (strip_fence analysis_text)"

section \<open>Values, exceptions, console lines and client calls\<close>

datatype json =
    JNull
  | JBool bool
  | JInt int
  | JFloat string   \<comment> \<open>a float, kept as the literal it was read from\<close>
  | JStr string     \<comment> \<open>a string of code points below 256\<close>
  | JUni "int list" \<comment> \<open>a string with a code point from 256 on: its code points\<close>
  | JArr "json list"
  | JObj "(string \<times> json) list"

text \<open>
  A Python \<open>dict\<close> with string keys: an association list with distinct keys in insertion
  order. \<open>json.loads\<close> applied to text that begins with an opening brace either raises or
  returns a dict, and the script passes it no other text but the empty one (lemma
  \<open>candidate_starts_at_brace\<close> below), so the value bound to \<open>analysis_json\<close> has this
  type.
\<close>

type_synonym dict = "(string \<times> json) list"

definition dict_has :: "string \<Rightarrow> dict \<Rightarrow> bool" where
  \<comment> \<open>\<open>key in d\<close>\<close>
  "dict_has key d = (map_of d key \<noteq> None)"

definition dict_get :: "dict \<Rightarrow> string \<Rightarrow> json \<Rightarrow> json" where
  \<comment> \<open>\<open>d.get(key, default)\<close>\<close>
  "dict_get d key dflt = (case map_of d key of None \<Rightarrow> dflt | Some v \<Rightarrow> v)"

text \<open>
  The exceptions the two \<open>try\<close> blocks tell apart, each with its \<open>str(e)\<close>:
  \<open>json.JSONDecodeError\<close>, \<open>requests.exceptions.Timeout\<close>, and every other subclass of
  \<open>Exception\<close>.
\<close>

datatype exc = JSONDecodeError string | Timeout string | OtherException string

primrec exc_str :: "exc \<Rightarrow> string" where
  "exc_str (JSONDecodeError m) = m"
| "exc_str (Timeout m) = m"
| "exc_str (OtherException m) = m"

text \<open>
  One constructor for each message the script prints, with the values its f-string
  interpolates. The timestamp of \<open>log_message\<close> is left out.
\<close>

datatype log_msg =
    Rule string                    \<comment> \<open>\<open>"=" * 60\<close>, \<open>"-" * 60\<close>\<close>
  | RunStarted                     \<comment> \<open>FUTFW HOURLY ANALYSIS STARTED\<close>
  | CredentialMissing              \<comment> \<open>ERROR: PERPLEXITY\_API\_KEY environment variable not set\<close>
  | Processing string              \<comment> \<open>Processing \{symbol\}...\<close>
  | Skipping string                \<comment> \<open>Skipping \{symbol\} - analysis failed\<close>
  | AnalysisComplete int nat int nat
      \<comment> \<open>Analysis Complete! Success: \{success\_count\}/\{len\} | Failed: \{failure\_count\}/\{len\}\<close>
  | StartingAnalysis               \<comment> \<open>Starting analysis...\<close>
  | ReceivedResponse               \<comment> \<open>Received response from Perplexity AI\<close>
  | MissingRequiredField string    \<comment> \<open>Missing required field: \{field\}\<close>
  | AnalysisCompleted              \<comment> \<open>Analysis completed successfully\<close>
  | NoValidJson                    \<comment> \<open>No valid JSON found in response\<close>
  | JsonParsingError string        \<comment> \<open>JSON parsing error: \{str(e)\}\<close>
  | AnalysisError string           \<comment> \<open>Analysis error: \{str(e)\}\<close>
  | SendingToDashboard             \<comment> \<open>Sending to dashboard...\<close>
  | SentToDashboard                \<comment> \<open>Successfully sent to dashboard\<close>
  | WebhookHttpError int           \<comment> \<open>Webhook error: HTTP \{response.status\_code\}\<close>
  | WebhookTimeout                 \<comment> \<open>Webhook timeout after 30 seconds\<close>
  | WebhookError string            \<comment> \<open>Webhook error: \{str(e)\}\<close>

text \<open>
  A console line is the bracketed tag and the message. The tag is a JSON value because
  \<open>send_to_webhook\<close> prints whatever the record holds under \<open>symbol\<close>.
\<close>

type_synonym log_line = "json \<times> log_msg"

datatype client_call =
    ChatCompletion string   \<comment> \<open>\<open>client.chat.completions.create\<close>, prompt formatted for this symbol\<close>
  | WebhookPost dict nat    \<comment> \<open>\<open>requests.post(WEBHOOK_URL, ..., json=analysis, timeout=...)\<close>\<close>

primrec is_chat :: "client_call \<Rightarrow> bool" where
  "is_chat (ChatCompletion symbol) = True"
| "is_chat (WebhookPost analysis timeout) = False"

record state =
  console :: "log_line list"     \<comment> \<open>what has been printed, oldest first\<close>
  calls :: "client_call list"    \<comment> \<open>the outbound client calls made, oldest first\<close>

text \<open>
  What the script does not decide: the process environment, what the completion service
  answers to the k-th call (the stripped-off response object is reduced to its
  \<open>choices[0].message.content\<close>, or to the exception raised on the way to it), what
  \<open>json.loads\<close> makes of a text, and what the k-th post returns (a status code) or raises.
\<close>

record env =
  environ :: "string \<Rightarrow> string option"
  chat_create :: "nat \<Rightarrow> exc + string"
  loads :: "string \<Rightarrow> exc + dict"
  post :: "nat \<Rightarrow> exc + int"

definition SYMBOLS :: "string list" where
  "SYMBOLS = [''MGC1'', ''MYM1'', ''MNQ1'', ''XAUTUSDT.P'']"

definition SYSTEM :: json where
  "SYSTEM = JStr ''SYSTEM''"

definition log_message :: "log_msg \<Rightarrow> json \<Rightarrow> state \<Rightarrow> state" where
  \<comment> \<open>what a \<open>print\<close> that returns does; the \<open>print\<close> that raises is \<open>log_message'\<close> below.\<close>
  "log_message message symbol st = st\<lparr>console := console st @ [(symbol, message)]\<rparr>"

definition call :: "client_call \<Rightarrow> state \<Rightarrow> state" where
  "call c st = st\<lparr>calls := calls st @ [c]\<rparr>"

definition chat_calls :: "state \<Rightarrow> nat" where
  "chat_calls st = length (filter is_chat (calls st))"

definition post_calls :: "state \<Rightarrow> nat" where
  "post_calls st = length (filter (\<lambda>c. \<not> is_chat c) (calls st))"

section \<open>run\_futfw\_analysis\<close>

text \<open>
  This section and the two after it give the script on a console that takes every line:
  each \<open>log_message\<close> returns. The section after them gives it again with a \<open>print\<close>
  that can raise, and the two are proved to agree wherever every tag can be printed.
\<close>

definition required_fields :: "string list" where
  "required_fields = [''symbol'', ''trend_1h'', ''trend_15m'', ''current_price'',
                      ''entry_price'', ''stop_loss'', ''take_profit'',
                      ''support_levels'', ''resistance_levels'']"

primrec missing_field :: "string list \<Rightarrow> dict \<Rightarrow> string option" where
  \<comment> \<open>lines 118-121: the first field of the list that is not a key, if there is one.\<close>
  "missing_field [] analysis_json = None"
| "missing_field (field # others) analysis_json =
     (if \<not> dict_has field analysis_json then Some field
      else missing_field others analysis_json)"

definition analysis_try :: "env \<Rightarrow> string \<Rightarrow> state \<Rightarrow> (exc + dict option) \<times> state" where
  \<comment> \<open>the body of the \<open>try\<close> (lines 74-127): \<open>Inl e\<close> when it raises \<open>e\<close>,
      \<open>Inr r\<close> when it returns \<open>r\<close>.\<close>
  "analysis_try e symbol st0 =
     (let st1 = log_message StartingAnalysis (JStr symbol) st0;
          st2 = call (ChatCompletion symbol) st1
      in case chat_create e (chat_calls st1) of
           Inl err \<Rightarrow> (Inl err, st2)
         | Inr content \<Rightarrow>
            (let analysis_text = py_strip content;
                 st3 = log_message ReceivedResponse (JStr symbol) st2
             in case json_candidate analysis_text of
                  None \<Rightarrow> (Inr None, log_message NoValidJson (JStr symbol) st3)
                | Some json_str \<Rightarrow>
                   (case loads e json_str of
                      Inl err \<Rightarrow> (Inl err, st3)
                    | Inr analysis_json \<Rightarrow>
                       (case missing_field required_fields analysis_json of
                          Some field \<Rightarrow>
                            (Inr None, log_message (MissingRequiredField field) (JStr symbol) st3)
                        | None \<Rightarrow>
                            (Inr (Some analysis_json),
                             log_message AnalysisCompleted (JStr symbol) st3)))))"

definition run_futfw_analysis :: "env \<Rightarrow> string \<Rightarrow> state \<Rightarrow> dict option \<times> state" where
  \<comment> \<open>the \<open>try\<close> with its two handlers (lines 129-134); \<open>None\<close> is Python's \<open>None\<close>.\<close>
  "run_futfw_analysis e symbol st0 =
     (case analysis_try e symbol st0 of
        (Inr result, st) \<Rightarrow> (result, st)
      | (Inl (JSONDecodeError m), st) \<Rightarrow>
          (None, log_message (JsonParsingError m) (JStr symbol) st)
      | (Inl err, st) \<Rightarrow>
          (None, log_message (AnalysisError (exc_str err)) (JStr symbol) st))"

section \<open>send\_to\_webhook\<close>

definition send_to_webhook :: "env \<Rightarrow> dict \<Rightarrow> state \<Rightarrow> bool \<times> state" where
  "send_to_webhook e analysis st0 =
     (let symbol = dict_get analysis ''symbol'' (JStr ''UNKNOWN'');
          st1 = log_message SendingToDashboard symbol st0;
          st2 = call (WebhookPost analysis 30) st1
      in case post e (post_calls st1) of
           Inr status_code \<Rightarrow>
             (if status_code = 200 then (True, log_message SentToDashboard symbol st2)
              else (False, log_message (WebhookHttpError status_code) symbol st2))
         | Inl (Timeout m) \<Rightarrow> (False, log_message WebhookTimeout symbol st2)
         | Inl err \<Rightarrow> (False, log_message (WebhookError (exc_str err)) symbol st2))"

section \<open>main\<close>

definition process_symbol :: "env \<Rightarrow> string \<Rightarrow> int \<times> int \<Rightarrow> state \<Rightarrow> (int \<times> int) \<times> state" where
  \<comment> \<open>one iteration of the \<open>for\<close> loop (lines 189-204) on the two counters.\<close>
  "process_symbol e symbol counts st0 =
     (case counts of (success_count, failure_count) \<Rightarrow>
      (let st1 = log_message (Processing symbol) SYSTEM st0
       in case run_futfw_analysis e symbol st1 of (analysis, st2) \<Rightarrow>
          (case (if analysis \<noteq> None \<and> analysis \<noteq> Some [] then
                   (case send_to_webhook e (the analysis) st2 of (sent, st3) \<Rightarrow>
                      (if sent then ((success_count + 1, failure_count), st3)
                       else ((success_count, failure_count + 1), st3)))
                 else ((success_count, failure_count + 1),
                       log_message (Skipping symbol) (JStr symbol) st2))
           of (counts', st4) \<Rightarrow>
             (counts', log_message (Rule (replicate 60 CHR ''-'')) SYSTEM st4))))"

fun symbols_loop :: "env \<Rightarrow> string list \<Rightarrow> int \<times> int \<Rightarrow> state \<Rightarrow> (int \<times> int) \<times> state" where
  \<comment> \<open>\<open>for symbol in SYMBOLS\<close>\<close>
  "symbols_loop e [] counts st = (counts, st)"
| "symbols_loop e (symbol # rest) counts st =
     (case process_symbol e symbol counts st of (counts', st') \<Rightarrow>
        symbols_loop e rest counts' st')"

definition banner :: "state \<Rightarrow> state" where
  \<comment> \<open>lines 176-178\<close>
  "banner st0 =
     log_message (Rule (replicate 60 CHR ''='')) SYSTEM
       (log_message RunStarted SYSTEM
         (log_message (Rule (replicate 60 CHR ''='')) SYSTEM st0))"

definition main_loop :: "env \<Rightarrow> state \<Rightarrow> (int \<times> int) \<times> state" where
  \<comment> \<open>lines 185-204: both counters start at 0 and the loop runs over \<open>SYMBOLS\<close>.\<close>
  "main_loop e st = symbols_loop e SYMBOLS (0, 0) st"

definition main :: "env \<Rightarrow> state \<Rightarrow> int \<times> state" where
  \<comment> \<open>the result is the exit status: 1 for \<open>sys.exit(1)\<close>, 0 for returning.\<close>
  "main e st0 =
     (let st1 = banner st0
      in if environ e ''PERPLEXITY_API_KEY'' = None \<or> environ e ''PERPLEXITY_API_KEY'' = Some []
         then (1, log_message CredentialMissing SYSTEM st1)
         else
           (case main_loop e st1 of ((success_count, failure_count), st2) \<Rightarrow>
              (let st3 = log_message (Rule (replicate 60 CHR ''='')) SYSTEM st2;
                   st4 = log_message (AnalysisComplete success_count (length SYMBOLS)
                                        failure_count (length SYMBOLS)) SYSTEM st3;
                   st5 = log_message (Rule (replicate 60 CHR ''='')) SYSTEM st4
               in (if failure_count = int (length SYMBOLS) then 1 else 0, st5))))"

definition fresh :: state where
  \<comment> \<open>a process that has printed nothing and called nothing yet\<close>
  "fresh = \<lparr>console = [], calls = []\<rparr>"


section \<open>The script on a console that can refuse a line\<close>

text \<open>
  \<open>log_message\<close> above is the effect of a \<open>print\<close> that returns, and the functions built
  on it are the script as long as every \<open>print\<close> returns. \<open>print\<close> hands the line to
  \<open>sys.stdout\<close>, which encodes it before it writes anything. A UTF-8 stream, the
  default, encodes every string but one that holds a surrogate code point: for that one
  the encoder raises \<open>UnicodeEncodeError\<close>. The script's own messages hold no surrogate,
  nor do the exception texts of this model, nor the tags \<open>SYSTEM\<close> and the entries of
  \<open>SYMBOLS\<close>; \<open>str\<close> of a number, a list or a dict escapes the surrogates inside it. That
  leaves the tag of \<open>send_to_webhook\<close>, a string taken from the response.

  This section gives the script's functions once more, with the \<open>print\<close> that can raise:
  primed names, and results that are \<open>Inl e\<close> when the function raises \<open>e\<close>. An \<open>Inl\<close>
  from \<open>main'\<close> is an uncaught exception: the interpreter prints a traceback and the
  process ends with status 1, wherever the loop was.
\<close>

definition surrogate :: "int \<Rightarrow> bool" where
  "surrogate cp = (0xD800 \<le> cp \<and> cp \<le> 0xDFFF)"

fun stdout_takes :: "json \<Rightarrow> bool" where
  \<comment> \<open>whether a UTF-8 stream can encode \<open>str\<close> of this tag.\<close>
  "stdout_takes (JUni cps) = (\<not> list_ex surrogate cps)"
| "stdout_takes tag = True"

definition UnicodeEncodeError :: exc where
  \<comment> \<open>a subclass of \<open>Exception\<close> that is neither of the two the handlers name; its text
      ends in these words.\<close>
  "UnicodeEncodeError = OtherException ''surrogates not allowed''"

definition then_do ::
  "(exc + 'a) \<times> state \<Rightarrow> ('a \<Rightarrow> state \<Rightarrow> (exc + 'b) \<times> state) \<Rightarrow> (exc + 'b) \<times> state"
where
  \<comment> \<open>one statement after another: what the first raises is the outcome; otherwise the
      second runs on the first one's value and state.\<close>
  "then_do r f = (case r of (Inl err, st) \<Rightarrow> (Inl err, st) | (Inr x, st) \<Rightarrow> f x st)"

definition log_message' :: "log_msg \<Rightarrow> json \<Rightarrow> state \<Rightarrow> (exc + unit) \<times> state" where
  "log_message' message symbol st =
     (if stdout_takes symbol then (Inr (), log_message message symbol st)
      else (Inl UnicodeEncodeError, st))"

definition analysis_try' :: "env \<Rightarrow> string \<Rightarrow> state \<Rightarrow> (exc + dict option) \<times> state" where
  \<comment> \<open>lines 74-127\<close>
  "analysis_try' e symbol st0 =
     then_do (log_message' StartingAnalysis (JStr symbol) st0) (\<lambda>_ st1.
       (let st2 = call (ChatCompletion symbol) st1
        in case chat_create e (chat_calls st1) of
             Inl err \<Rightarrow> (Inl err, st2)
           | Inr content \<Rightarrow>
              (let analysis_text = py_strip content
               in then_do (log_message' ReceivedResponse (JStr symbol) st2) (\<lambda>_ st3.
                    case json_candidate analysis_text of
                      None \<Rightarrow>
                        then_do (log_message' NoValidJson (JStr symbol) st3)
                          (\<lambda>_ st4. (Inr None, st4))
                    | Some json_str \<Rightarrow>
                       (case loads e json_str of
                          Inl err \<Rightarrow> (Inl err, st3)
                        | Inr analysis_json \<Rightarrow>
                           (case missing_field required_fields analysis_json of
                              Some field \<Rightarrow>
                                then_do (log_message' (MissingRequiredField field) (JStr symbol) st3)
                                  (\<lambda>_ st4. (Inr None, st4))
                            | None \<Rightarrow>
                                then_do (log_message' AnalysisCompleted (JStr symbol) st3)
                                  (\<lambda>_ st4. (Inr (Some analysis_json), st4))))))))"

definition run_futfw_analysis' :: "env \<Rightarrow> string \<Rightarrow> state \<Rightarrow> (exc + dict option) \<times> state" where
  \<comment> \<open>lines 129-134: what a handler's own \<open>log_message\<close> raises leaves the function.\<close>
  "run_futfw_analysis' e symbol st0 =
     (case analysis_try' e symbol st0 of
        (Inr result, st) \<Rightarrow> (Inr result, st)
      | (Inl (JSONDecodeError m), st) \<Rightarrow>
          then_do (log_message' (JsonParsingError m) (JStr symbol) st) (\<lambda>_ st1. (Inr None, st1))
      | (Inl err, st) \<Rightarrow>
          then_do (log_message' (AnalysisError (exc_str err)) (JStr symbol) st)
            (\<lambda>_ st1. (Inr None, st1)))"

definition webhook_try' :: "env \<Rightarrow> dict \<Rightarrow> json \<Rightarrow> state \<Rightarrow> (exc + bool) \<times> state" where
  \<comment> \<open>lines 145-164: the line of 150 is printed, or raises, before the post of 152.\<close>
  "webhook_try' e analysis symbol st0 =
     then_do (log_message' SendingToDashboard symbol st0) (\<lambda>_ st1.
       (let st2 = call (WebhookPost analysis 30) st1
        in case post e (post_calls st1) of
             Inl err \<Rightarrow> (Inl err, st2)
           | Inr status_code \<Rightarrow>
              (if status_code = 200
               then then_do (log_message' SentToDashboard symbol st2) (\<lambda>_ st3. (Inr True, st3))
               else then_do (log_message' (WebhookHttpError status_code) symbol st2)
                      (\<lambda>_ st3. (Inr False, st3)))))"

definition send_to_webhook' :: "env \<Rightarrow> dict \<Rightarrow> state \<Rightarrow> (exc + bool) \<times> state" where
  \<comment> \<open>lines 142 and 166-171: both handlers print with the same tag before they return.\<close>
  "send_to_webhook' e analysis st0 =
     (let symbol = dict_get analysis ''symbol'' (JStr ''UNKNOWN'')
      in case webhook_try' e analysis symbol st0 of
           (Inr sent, st) \<Rightarrow> (Inr sent, st)
         | (Inl (Timeout m), st) \<Rightarrow>
             then_do (log_message' WebhookTimeout symbol st) (\<lambda>_ st1. (Inr False, st1))
         | (Inl err, st) \<Rightarrow>
             then_do (log_message' (WebhookError (exc_str err)) symbol st)
               (\<lambda>_ st1. (Inr False, st1)))"

definition process_symbol' ::
  "env \<Rightarrow> string \<Rightarrow> int \<times> int \<Rightarrow> state \<Rightarrow> (exc + int \<times> int) \<times> state"
where
  \<comment> \<open>lines 189-204: the loop body has no \<open>try\<close> of its own.\<close>
  "process_symbol' e symbol counts st0 =
     (case counts of (success_count, failure_count) \<Rightarrow>
      then_do (log_message' (Processing symbol) SYSTEM st0) (\<lambda>_ st1.
        then_do (run_futfw_analysis' e symbol st1) (\<lambda>analysis st2.
          then_do
            (if analysis \<noteq> None \<and> analysis \<noteq> Some [] then
               then_do (send_to_webhook' e (the analysis) st2) (\<lambda>sent st3.
                 (if sent then (Inr (success_count + 1, failure_count), st3)
                  else (Inr (success_count, failure_count + 1), st3)))
             else
               then_do (log_message' (Skipping symbol) (JStr symbol) st2)
                 (\<lambda>_ st3. (Inr (success_count, failure_count + 1), st3)))
            (\<lambda>counts' st4.
               then_do (log_message' (Rule (replicate 60 CHR ''-'')) SYSTEM st4)
                 (\<lambda>_ st5. (Inr counts', st5))))))"

fun symbols_loop' ::
  "env \<Rightarrow> string list \<Rightarrow> int \<times> int \<Rightarrow> state \<Rightarrow> (exc + int \<times> int) \<times> state"
where
  "symbols_loop' e [] counts st = (Inr counts, st)"
| "symbols_loop' e (symbol # rest) counts st =
     (case process_symbol' e symbol counts st of
        (Inl err, st') \<Rightarrow> (Inl err, st')
      | (Inr counts', st') \<Rightarrow> symbols_loop' e rest counts' st')"

definition banner' :: "state \<Rightarrow> (exc + unit) \<times> state" where
  "banner' st0 =
     then_do (log_message' (Rule (replicate 60 CHR ''='')) SYSTEM st0) (\<lambda>_ st1.
       then_do (log_message' RunStarted SYSTEM st1) (\<lambda>_ st2.
         log_message' (Rule (replicate 60 CHR ''='')) SYSTEM st2))"

definition main' :: "env \<Rightarrow> state \<Rightarrow> (exc + int) \<times> state" where
  \<comment> \<open>\<open>Inr\<close> the exit status of \<open>main\<close>; \<open>Inl\<close> the exception that leaves it.\<close>
  "main' e st0 =
     then_do (banner' st0) (\<lambda>_ st1.
       if environ e ''PERPLEXITY_API_KEY'' = None \<or> environ e ''PERPLEXITY_API_KEY'' = Some []
       then then_do (log_message' CredentialMissing SYSTEM st1) (\<lambda>_ st2. (Inr 1, st2))
       else
         then_do (symbols_loop' e SYMBOLS (0, 0) st1) (\<lambda>counts st2.
           then_do (log_message' (Rule (replicate 60 CHR ''='')) SYSTEM st2) (\<lambda>_ st3.
             then_do (log_message' (AnalysisComplete (fst counts) (length SYMBOLS)
                                      (snd counts) (length SYMBOLS)) SYSTEM st3) (\<lambda>_ st4.
               then_do (log_message' (Rule (replicate 60 CHR ''='')) SYSTEM st4) (\<lambda>_ st5.
                 (Inr (if snd counts = int (length SYMBOLS) then 1 else 0), st5))))))"

definition printable_replies :: "env \<Rightarrow> bool" where
  \<comment> \<open>every record \<open>json.loads\<close> can return has a \<open>symbol\<close> that a UTF-8 stream encodes.\<close>
  "printable_replies e =
     (\<forall>json_str d. loads e json_str = Inr d \<longrightarrow>
        stdout_takes (dict_get d ''symbol'' (JStr ''UNKNOWN'')))"

section \<open>The extraction procedure in the words of the specification\<close>

text \<open>
  Section 4.1 of the specification describes the extraction by fences and braces, not by
  indices. These definitions follow its words; nothing in the script's model uses them.
\<close>

fun split_on :: "string \<Rightarrow> string \<Rightarrow> (string \<times> string) option" where
  \<comment> \<open>the text before and the text after the first occurrence of a delimiter.\<close>
  "split_on sep [] = (if sep = [] then Some ([], []) else None)"
| "split_on sep (c # cs) =
     (if prefix sep (c # cs) then Some ([], drop (length sep) (c # cs))
      else case split_on sep cs of
             None \<Rightarrow> None
           | Some (before, after) \<Rightarrow> Some (c # before, after))"


definition spec_payload :: "string \<Rightarrow> string option" where
  \<comment> \<open>step 4: from the first opening brace to the last closing brace; fails when either is
      missing.\<close>
  "spec_payload text =
     (if CHR ''{'' \<notin> set text \<or> CHR ''}'' \<notin> set text then None
      else Some (rev (dropWhile (\<lambda>c. c \<noteq> CHR ''}'')
                   (rev (dropWhile (\<lambda>c. c \<noteq> CHR ''{'') text)))))"

section \<open>A reading of json.loads, for running the script on concrete responses\<close>

text \<open>
  The script's functions above take \<open>json.loads\<close> from the environment, and the general
  theorems hold for every such function. To run the script on a concrete response this
  section gives one: the decoder of Python's \<open>json\<close> module (whitespace, objects with
  the last duplicate key winning, arrays, strings with escapes, numbers, the three literals
  and \<open>NaN\<close>/\<open>Infinity\<close>) on text of code points below 256. A unicode escape may denote
  any code point, a surrogate too, and two escapes that form a surrogate pair are joined,
  as the decoder does. Its error carries no position text, a key with a code point from
  256 on is rejected, and a top-level value that is not an object (which the script never
  asks for: it passes text that starts at an opening brace, or the empty text) is reported
  as an error as well.
\<close>

definition json_ws :: "char \<Rightarrow> bool" where
  "json_ws c = (c \<in> {CHR 0x20, CHR 0x09, CHR 0x0A, CHR 0x0D})"

definition code_point :: "char \<Rightarrow> nat" where
  \<comment> \<open>the code point of a character\<close>
  "code_point c = of_char c"

definition is_digit :: "char \<Rightarrow> bool" where
  "is_digit c = (code_point CHR ''0'' \<le> code_point c \<and> code_point c \<le> code_point CHR ''9'')"

definition digit_val :: "char \<Rightarrow> nat" where
  "digit_val c = code_point c - code_point CHR ''0''"

definition hex_val :: "char \<Rightarrow> nat option" where
  "hex_val c =
     (if is_digit c then Some (digit_val c)
      else if code_point CHR ''a'' \<le> code_point c \<and> code_point c \<le> code_point CHR ''f'' then Some (code_point c - code_point CHR ''a'' + 10)
      else if code_point CHR ''A'' \<le> code_point c \<and> code_point c \<le> code_point CHR ''F'' then Some (code_point c - code_point CHR ''A'' + 10)
      else None)"

definition unescape :: "char \<Rightarrow> char option" where
  "unescape c =
     (if c = CHR 0x22 \<or> c = CHR 0x5C \<or> c = CHR ''/'' then Some c
      else if c = CHR ''b'' then Some (CHR 0x08)
      else if c = CHR ''f'' then Some (CHR 0x0C)
      else if c = CHR ''n'' then Some (CHR 0x0A)
      else if c = CHR ''r'' then Some (CHR 0x0D)
      else if c = CHR ''t'' then Some (CHR 0x09)
      else None)"

text \<open>
  The content of a string literal is read as a list of units: \<open>Inl c\<close> for a character
  written as itself or by a one-letter escape, \<open>Inr n\<close> for a unicode escape of the
  number \<open>n\<close>.
\<close>

definition consed ::
  "char + int \<Rightarrow> ((char + int) list \<times> string) option \<Rightarrow> ((char + int) list \<times> string) option"
where
  "consed u r = (case r of None \<Rightarrow> None | Some (units, rest) \<Rightarrow> Some (u # units, rest))"

fun scan_string :: "string \<Rightarrow> ((char + int) list \<times> string) option" where
  \<comment> \<open>the text after an opening quote: the string's units and what follows the closing
      quote.\<close>
  "scan_string [] = None"
| "scan_string (c # cs) =
     (if c = CHR 0x22 then Some ([], cs)
      else if c = CHR 0x5C then
        (case cs of
           [] \<Rightarrow> None
         | x # cs1 \<Rightarrow>
            (if x = CHR ''u'' then
               (case cs1 of
                  h1 # h2 # h3 # h4 # cs2 \<Rightarrow>
                    (case (hex_val h1, hex_val h2, hex_val h3, hex_val h4) of
                       (Some a, Some b, Some k, Some d) \<Rightarrow>
                         consed (Inr (4096 * int a + 256 * int b + 16 * int k + int d))
                           (scan_string cs2)
                     | _ \<Rightarrow> None)
                | _ \<Rightarrow> None)
             else (case unescape x of
                     None \<Rightarrow> None
                   | Some ch \<Rightarrow> consed (Inl ch) (scan_string cs1))))
      else if code_point c < 32 then None
      else consed (Inl c) (scan_string cs))"

fun join_surrogates :: "(char + int) list \<Rightarrow> (char + int) list" where
  \<comment> \<open>an escaped high surrogate followed at once by an escaped low one is one code point
      beyond the basic plane.\<close>
  "join_surrogates (Inr h # Inr l # rest) =
     (if 0xD800 \<le> h \<and> h \<le> 0xDBFF \<and> 0xDC00 \<le> l \<and> l \<le> 0xDFFF
      then Inr (0x10000 + (h - 0xD800) * 1024 + (l - 0xDC00)) # join_surrogates rest
      else Inr h # join_surrogates (Inr l # rest))"
| "join_surrogates (u # rest) = u # join_surrogates rest"
| "join_surrogates [] = []"

fun below_256 :: "char + int \<Rightarrow> bool" where
  "below_256 (Inl c) = True"
| "below_256 (Inr n) = (n < 256)"

fun unit_char :: "char + int \<Rightarrow> char" where
  "unit_char (Inl c) = c"
| "unit_char (Inr n) = char_of n"

fun unit_code :: "char + int \<Rightarrow> int" where
  "unit_code (Inl c) = int (code_point c)"
| "unit_code (Inr n) = n"

definition py_str :: "(char + int) list \<Rightarrow> json" where
  \<comment> \<open>the Python string of these units, as a value of the model.\<close>
  "py_str units =
     (if list_all below_256 units then JStr (map unit_char units)
      else JUni (map unit_code units))"

definition digits_val :: "string \<Rightarrow> int" where
  "digits_val ds = int (foldl (\<lambda>a c. 10 * a + digit_val c) 0 ds)"

definition scan_number :: "string \<Rightarrow> (json \<times> string) option" where
  \<comment> \<open>the decoder's number pattern (optional minus, integer part without leading zeros,
      optional fraction, optional exponent) matched at the head of the text.\<close>
  "scan_number s =
     (let neg = (s \<noteq> [] \<and> hd s = CHR ''-'');
          s1 = (if neg then tl s else s);
          ds = takeWhile is_digit s1
      in if ds = [] then None
         else
          (let ipart = (if hd ds = CHR ''0'' then ''0'' else ds);
               s2 = drop (length ipart) s1;
               fd = (if s2 \<noteq> [] \<and> hd s2 = CHR ''.'' then takeWhile is_digit (tl s2) else []);
               frac = (if fd = [] then [] else CHR ''.'' # fd);
               s3 = drop (length frac) s2;
               has_e = (s3 \<noteq> [] \<and> (hd s3 = CHR ''e'' \<or> hd s3 = CHR ''E''));
               s4 = (if has_e then tl s3 else []);
               sg = (if s4 \<noteq> [] \<and> (hd s4 = CHR ''+'' \<or> hd s4 = CHR ''-'') then [hd s4] else []);
               ed = takeWhile is_digit (drop (length sg) s4);
               ex = (if ed = [] then [] else hd s3 # sg @ ed);
               rest = drop (length ex) s3
           in if frac = [] \<and> ex = []
              then Some (JInt (if neg then - digits_val ipart else digits_val ipart), rest)
              else Some (JFloat ((if neg then ''-'' else []) @ ipart @ frac @ ex), rest)))"

definition scan_literal :: "string \<Rightarrow> (json \<times> string) option" where
  "scan_literal s =
     (if prefix ''null'' s then Some (JNull, drop 4 s)
      else if prefix ''true'' s then Some (JBool True, drop 4 s)
      else if prefix ''false'' s then Some (JBool False, drop 5 s)
      else case scan_number s of
             Some r \<Rightarrow> Some r
           | None \<Rightarrow>
              (if prefix ''NaN'' s then Some (JFloat ''NaN'', drop 3 s)
               else if prefix ''Infinity'' s then Some (JFloat ''Infinity'', drop 8 s)
               else if prefix ''-Infinity'' s then Some (JFloat ''-Infinity'', drop 9 s)
               else None))"

fun parse_value :: "nat \<Rightarrow> string \<Rightarrow> (json \<times> string) option"
  and parse_elems :: "nat \<Rightarrow> json list \<Rightarrow> string \<Rightarrow> (json \<times> string) option"
  and parse_members :: "nat \<Rightarrow> dict \<Rightarrow> string \<Rightarrow> (json \<times> string) option"
where
  "parse_value 0 s = None"
| "parse_value (Suc n) s =
     (case s of
        [] \<Rightarrow> None
      | c # cs \<Rightarrow>
         (if c = CHR 0x22 then
            (case scan_string cs of
               None \<Rightarrow> None
             | Some (units, rest) \<Rightarrow> Some (py_str (join_surrogates units), rest))
          else if c = CHR ''{'' then
            (case dropWhile json_ws cs of
               [] \<Rightarrow> None
             | x # rest \<Rightarrow> if x = CHR ''}'' then Some (JObj [], rest)
                           else parse_members n [] (x # rest))
          else if c = CHR ''['' then
            (case dropWhile json_ws cs of
               [] \<Rightarrow> None
             | x # rest \<Rightarrow> if x = CHR '']'' then Some (JArr [], rest)
                           else parse_elems n [] (x # rest))
          else scan_literal s))"
| "parse_elems 0 acc s = None"
| "parse_elems (Suc n) acc s =
     (case parse_value n s of
        None \<Rightarrow> None
      | Some (v, rest) \<Rightarrow>
         (case dropWhile json_ws rest of
            [] \<Rightarrow> None
          | x # r1 \<Rightarrow>
             (if x = CHR '']'' then Some (JArr (acc @ [v]), r1)
              else if x = CHR '','' then parse_elems n (acc @ [v]) (dropWhile json_ws r1)
              else None)))"
| "parse_members 0 acc s = None"
| "parse_members (Suc n) acc s =
     (case s of
        [] \<Rightarrow> None
      | q # cs \<Rightarrow>
         (if q \<noteq> CHR 0x22 then None
          else case scan_string cs of
            None \<Rightarrow> None
          | Some (units, rest) \<Rightarrow>
             (case py_str (join_surrogates units) of
                JStr key \<Rightarrow>
                 (case dropWhile json_ws rest of
                    [] \<Rightarrow> None
                  | x # r1 \<Rightarrow>
                     (if x \<noteq> CHR '':'' then None
                      else case parse_value n (dropWhile json_ws r1) of
                        None \<Rightarrow> None
                      | Some (v, r2) \<Rightarrow>
                         (case dropWhile json_ws r2 of
                            [] \<Rightarrow> None
                          | y # r3 \<Rightarrow>
                             (if y = CHR ''}'' then Some (JObj (AList.update key v acc), r3)
                              else if y = CHR '','' then
                                parse_members n (AList.update key v acc) (dropWhile json_ws r3)
                              else None))))
              | _ \<Rightarrow> None)))"

definition json_loads :: "string \<Rightarrow> exc + dict" where
  "json_loads s =
     (case parse_value (2 * length s + 2) (dropWhile json_ws s) of
        Some (JObj d, rest) \<Rightarrow>
          (if dropWhile json_ws rest = [] then Inr d else Inl (JSONDecodeError ''Extra data''))
      | Some (v, rest) \<Rightarrow> Inl (JSONDecodeError ''not an object'')
      | None \<Rightarrow> Inl (JSONDecodeError ''Expecting value''))"

section \<open>Observations and concrete environments\<close>


definition good_reply :: string where
  \<comment> \<open>the unfenced response of the specification's section 8.\<close>
  "good_reply = ''{\"symbol\":\"X\",\"trend_1h\":\"bullish\",\"trend_15m\":\"neutral\",\"current_price\":10,\"entry_price\":9,\"stop_loss\":8,\"take_profit\":12,\"support_levels\":[8,7],\"resistance_levels\":[11,12]}''"

definition good_record :: dict where
  "good_record =
     [(''symbol'', JStr ''X''), (''trend_1h'', JStr ''bullish''),
      (''trend_15m'', JStr ''neutral''), (''current_price'', JInt 10),
      (''entry_price'', JInt 9), (''stop_loss'', JInt 8), (''take_profit'', JInt 12),
      (''support_levels'', JArr [JInt 8, JInt 7]),
      (''resistance_levels'', JArr [JInt 11, JInt 12])]"

definition no_take_profit_reply :: string where
  \<comment> \<open>the same object without \<open>take_profit\<close>, after a few words of prose.\<close>
  "no_take_profit_reply = ''Here you go: {\"symbol\":\"X\",\"trend_1h\":\"bullish\",\"trend_15m\":\"neutral\",\"current_price\":10,\"entry_price\":9,\"stop_loss\":8,\"support_levels\":[8,7],\"resistance_levels\":[11,12]}''"


definition unclosed_reply :: string where
  "unclosed_reply = ''```json {\"a\":1}''"

definition answering :: "(nat \<Rightarrow> exc + string) \<Rightarrow> (nat \<Rightarrow> exc + int) \<Rightarrow> env" where
  \<comment> \<open>the credential is set and \<open>json.loads\<close> is the decoder above; the two services are
      given.\<close>
  "answering chat webhook =
     \<lparr>environ = [''PERPLEXITY_API_KEY'' \<mapsto> ''pplx-key''],
      chat_create = chat, loads = json_loads, post = webhook\<rparr>"

definition always_good :: env where
  "always_good = answering (\<lambda>k. Inr good_reply) (\<lambda>k. Inr 200)"

definition three_of_four :: env where
  \<comment> \<open>the third completion call raises; everything else succeeds.\<close>
  "three_of_four =
     answering (\<lambda>k. if k = 2 then Inl (OtherException ''Connection error.'') else Inr good_reply)
               (\<lambda>k. Inr 200)"

definition always_failing :: env where
  "always_failing =
     answering (\<lambda>k. Inl (OtherException ''Connection error.''))
               (\<lambda>k. Inl (Timeout ''Read timed out.''))"

definition no_credential :: env where
  "no_credential = always_good\<lparr>environ := Map.empty\<rparr>"

definition no_take_profit :: env where
  "no_take_profit = answering (\<lambda>k. Inr no_take_profit_reply) (\<lambda>k. Inr 200)"


definition webhook_answers :: "exc + int \<Rightarrow> env" where
  "webhook_answers r = answering (\<lambda>k. Inr good_reply) (\<lambda>k. r)"

definition surrogate_reply :: string where
  \<comment> \<open>a complete object whose \<open>symbol\<close> is written with the escape of the lone surrogate
      D83D: backslash, u, d, 8, 3, d.\<close>
  "surrogate_reply = ''{\"symbol\":\"'' @ CHR 0x5C # ''ud83d\",\"trend_1h\":\"bullish\",\"trend_15m\":\"neutral\",\"current_price\":10,\"entry_price\":9,\"stop_loss\":8,\"take_profit\":12,\"support_levels\":[8,7],\"resistance_levels\":[11,12]}''"

definition surrogate_record :: dict where
  "surrogate_record =
     [(''symbol'', JUni [0xD83D]), (''trend_1h'', JStr ''bullish''),
      (''trend_15m'', JStr ''neutral''), (''current_price'', JInt 10),
      (''entry_price'', JInt 9), (''stop_loss'', JInt 8), (''take_profit'', JInt 12),
      (''support_levels'', JArr [JInt 8, JInt 7]),
      (''resistance_levels'', JArr [JInt 11, JInt 12])]"

definition lone_surrogate :: env where
  \<comment> \<open>every completion call is answered with \<open>surrogate_reply\<close>; the webhook would answer
      200.\<close>
  "lone_surrogate = answering (\<lambda>k. Inr surrogate_reply) (\<lambda>k. Inr 200)"

section \<open>Facts about the string operations\<close>

lemma py_in_find_at: "py_in sub s \<longleftrightarrow> find_at sub s i \<noteq> -1"
  by (induction s arbitrary: i) auto

lemma prefix_drop: "prefix xs ys \<Longrightarrow> xs @ drop (length xs) ys = ys"
  by (auto simp: prefix_def)

lemma split_on_None: "split_on sub s = None \<longleftrightarrow> \<not> py_in sub s"
  by (induction s) (auto split: option.splits)

lemma split_on_Some:
  "split_on sub s = Some (a, b) \<Longrightarrow> s = a @ sub @ b \<and> find_at sub s i = int (i + length a)"
proof (induction s arbitrary: a i)
  case Nil
  then show ?case by (auto split: if_splits)
next
  case (Cons c cs)
  show ?case
  proof (cases "prefix sub (c # cs)")
    case True
    with Cons.prems have "a = []" and "b = drop (length sub) (c # cs)" by simp_all
    with True prefix_drop[OF True] show ?thesis by simp
  next
    case False
    with Cons.prems obtain a' where s: "split_on sub cs = Some (a', b)" and a: "a = c # a'"
      by (auto split: option.splits)
    from Cons.IH[OF s, of "Suc i"] a False show ?thesis by auto
  qed
qed

lemma find_at_char:
  "find_at [c] s i = (if c \<in> set s then int (i + length (takeWhile (\<lambda>x. x \<noteq> c) s)) else -1)"
  by (induction s arbitrary: i) auto

lemma rfind_at_char:
  "rfind_at [c] s i acc =
     (if c \<in> set s
      then int (i + length s) - 1 - int (length (takeWhile (\<lambda>x. x \<noteq> c) (rev s)))
      else acc)"
proof (induction s arbitrary: i acc)
  case Nil
  then show ?case by simp
next
  case (Cons x xs)
  show ?case
  proof (cases "c \<in> set xs")
    case True
    then have "takeWhile (\<lambda>x. x \<noteq> c) (rev xs @ [x]) = takeWhile (\<lambda>x. x \<noteq> c) (rev xs)"
      by (simp add: takeWhile_append1)
    with True Cons.IH show ?thesis by simp
  next
    case False
    then have nin: "\<And>y. y \<in> set (rev xs) \<Longrightarrow> y \<noteq> c" by auto
    have tw: "takeWhile (\<lambda>x. x \<noteq> c) (rev xs @ [x]) = rev xs @ takeWhile (\<lambda>x. x \<noteq> c) [x]"
      using nin by (rule takeWhile_append2)
    show ?thesis
    proof (cases "x = c")
      case True
      have "rfind_at [c] (x # xs) i acc = int i"
        using False True by (simp add: Cons.IH)
      moreover have "length (takeWhile (\<lambda>x. x \<noteq> c) (rev (x # xs))) = length xs"
        using tw True by simp
      ultimately show ?thesis using True by simp
    next
      case neq: False
      then show ?thesis using False by (simp add: Cons.IH)
    qed
  qed
qed

lemma length_takeWhile_take:
  "length (takeWhile Q (take n xs)) = min n (length (takeWhile Q xs))"
proof (induction xs arbitrary: n)
  case Nil
  then show ?case by simp
next
  case (Cons x xs)
  then show ?case by (cases n) auto
qed

lemma trim_right_take:
  "rev (dropWhile Q (rev w)) = take (length w - length (takeWhile Q (rev w))) w"
proof -
  have "dropWhile Q (rev w) = drop (length (takeWhile Q (rev w))) (rev w)"
    by (rule dropWhile_eq_drop)
  then show ?thesis by (simp add: rev_drop)
qed

lemma takeWhile_less_length: "c \<in> set s \<Longrightarrow> length (takeWhile (\<lambda>x. x \<noteq> c) s) < length s"
  by (induction s) auto

lemma py_slice_nat:
  "i \<le> length s \<Longrightarrow> j \<le> length s \<Longrightarrow> py_slice s (int i) (int j) = take (j - i) (drop i s)"
  by (simp add: py_slice_def py_index_def)

lemma py_find_0: "py_find s sub 0 = find_at sub s 0"
  by (simp add: py_find_def py_index_def)

lemma json_bounds_spec: "json_bounds t = spec_payload t"
proof (cases "CHR ''{'' \<in> set t \<and> CHR ''}'' \<in> set t")
  case False
  then show ?thesis
    by (auto simp: json_bounds_def spec_payload_def py_find_0 py_rfind_def find_at_char rfind_at_char Let_def)
next
  case True
  define i where "i = length (takeWhile (\<lambda>x. x \<noteq> CHR ''{'') t)"
  define k where "k = length (takeWhile (\<lambda>x. x \<noteq> CHR ''}'') (rev t))"
  have i: "i < length t" unfolding i_def using True by (simp add: takeWhile_less_length)
  have k: "k < length t" unfolding k_def using True takeWhile_less_length[of "CHR ''}''" "rev t"] by simp
  have start: "py_find t ''{'' 0 = int i"
    using True by (simp add: py_find_0 find_at_char i_def)
  have stop: "py_rfind t ''}'' + 1 = int (length t - k)"
    using True k by (simp add: py_rfind_def rfind_at_char k_def)
  have sl: "py_slice t (int i) (int (length t - k)) = take (length t - k - i) (drop i t)"
    using i k by (intro py_slice_nat) auto
  have nz: "int i \<noteq> -1 \<and> int (length t - k) \<noteq> 0"
    using k by auto
  have code: "json_bounds t = Some (take (length t - k - i) (drop i t))"
    unfolding json_bounds_def Let_def start stop sl using nz by (simp only: if_True simp_thms)
  have F: "dropWhile (\<lambda>x. x \<noteq> CHR ''{'') t = drop i t"
    unfolding i_def by (rule dropWhile_eq_drop)
  have "length (takeWhile (\<lambda>x. x \<noteq> CHR ''}'') (rev (drop i t))) = min (length t - i) k"
    unfolding k_def by (simp add: rev_drop length_takeWhile_take)
  then have G: "rev (dropWhile (\<lambda>x. x \<noteq> CHR ''}'') (rev (drop i t))) = take (length t - k - i) (drop i t)"
    using i k by (simp add: trim_right_take min_def add.commute)
  show ?thesis using True code by (simp add: spec_payload_def F G)
qed






text \<open>What reaches \<open>json.loads\<close> is empty or starts at an opening brace.\<close>

lemma candidate_starts_at_brace:
  assumes "json_candidate t = Some js"
  shows "js = [] \<or> hd js = CHR ''{''"
proof -
  let ?u = "strip_fence t"
  let ?w = "dropWhile (\<lambda>c. c \<noteq> CHR ''{'') ?u"
  from assms have p: "spec_payload ?u = Some js"
    by (simp add: json_candidate_def json_bounds_spec)
  then have js: "js = rev (dropWhile (\<lambda>c. c \<noteq> CHR ''}'') (rev ?w))"
    by (simp add: spec_payload_def split: if_splits)
  then obtain n where n: "js = take n ?w"
    unfolding trim_right_take by blast
  show ?thesis
  proof (cases "n = 0 \<or> ?w = []")
    case True
    with n show ?thesis by auto
  next
    case False
    then have "hd js = hd ?w" using n by (cases ?w; cases n) auto
    moreover have "hd ?w = CHR ''{''" using False hd_dropWhile[of "\<lambda>c. c \<noteq> CHR ''{''" ?u] by simp
    ultimately show ?thesis by simp
  qed
qed

lemma split_on_append: "split_on sub s = Some (a, b) \<Longrightarrow> s = a @ sub @ b"
  using split_on_Some by blast

lemma split_on_find: "split_on sub s = Some (a, b) \<Longrightarrow> find_at sub s i = int (i + length a)"
  using split_on_Some by blast

lemma py_find_suffix:
  "py_find (a @ r) sub (int (length a)) = find_at sub r (length a)"
  by (simp add: py_find_def py_index_def)


lemma fence_open:
  assumes "split_on sub r = None"
  shows "py_find (a @ r) sub (int (length a)) = -1"
    and "py_slice (a @ r) (int (length a)) (py_find (a @ r) sub (int (length a))) = butlast r"
proof -
  from assms have "\<not> py_in sub r" by (simp add: split_on_None)
  then show f: "py_find (a @ r) sub (int (length a)) = -1"
    unfolding py_find_suffix by (simp add: py_in_find_at[of sub r "length a"])
  have m1: "py_index (-1) (length (a @ r)) = length (a @ r) - 1"
    by (simp add: py_index_def)
  have "py_slice (a @ r) (int (length a)) (-1) = take (length (a @ r) - 1 - length a) r"
    unfolding py_slice_def Let_def m1 by (simp add: py_index_def)
  also have "\<dots> = butlast r"
    by (cases "r = []") (simp_all add: butlast_conv_take)
  finally show "py_slice (a @ r) (int (length a)) (py_find (a @ r) sub (int (length a))) = butlast r"
    unfolding f .
qed

lemma strip_fence_json:
  assumes "split_on ''```json'' t = Some (pre, r)"
  shows "strip_fence t =
           py_strip (py_slice ((pre @ ''```json'') @ r) (int (length (pre @ ''```json'')))
             (py_find ((pre @ ''```json'') @ r) ''```'' (int (length (pre @ ''```json'')))))"
proof -
  have t: "t = pre @ ''```json'' @ r" and f: "find_at ''```json'' t 0 = int (length pre)"
    using split_on_append[OF assms] split_on_find[OF assms, of 0] by simp_all
  have "py_in ''```json'' t" using f by (simp add: py_in_find_at[of _ t 0])
  then show ?thesis
    unfolding strip_fence_def Let_def py_find_0[of t] f
    by (simp add: t add.commute)
qed

lemma strip_fence_plain:
  assumes "split_on ''```json'' t = None" and "split_on ''```'' t = Some (pre, r)"
  shows "strip_fence t =
           py_strip (py_slice ((pre @ ''```'') @ r) (int (length (pre @ ''```'')))
             (py_find ((pre @ ''```'') @ r) ''```'' (int (length (pre @ ''```'')))))"
proof -
  have t: "t = pre @ ''```'' @ r" and f: "find_at ''```'' t 0 = int (length pre)"
    using split_on_append[OF assms(2)] split_on_find[OF assms(2), of 0] by simp_all
  have no: "\<not> py_in ''```json'' t" using assms(1) by (simp add: split_on_None)
  have "py_in ''```'' t" using f by (simp add: py_in_find_at[of _ t 0])
  with no show ?thesis
    unfolding strip_fence_def Let_def py_find_0[of t] f
    by (simp add: t add.commute)
qed


section \<open>Facts about the script's functions\<close>

lemma log_message_simps [simp]:
  "console (log_message m s st) = console st @ [(s, m)]"
  "calls (log_message m s st) = calls st"
  "chat_calls (log_message m s st) = chat_calls st"
  "post_calls (log_message m s st) = post_calls st"
  by (simp_all add: log_message_def chat_calls_def post_calls_def)

lemma call_simps [simp]:
  "console (call c st) = console st"
  "calls (call c st) = calls st @ [c]"
  by (simp_all add: call_def)

lemma missing_field_None:
  "missing_field fs d = None \<longleftrightarrow> (\<forall>k\<in>set fs. dict_has k d)"
  by (induction fs) auto

lemma missing_field_Some:
  "missing_field fs d = Some k \<Longrightarrow> k \<in> set fs \<and> \<not> dict_has k d"
  by (induction fs) (auto split: if_splits)

lemmas analysis_defs = run_futfw_analysis_def analysis_try_def
lemmas analysis_splits = sum.splits option.splits exc.splits prod.splits

lemma run_calls: "calls (snd (run_futfw_analysis e symbol st)) = calls st @ [ChatCompletion symbol]"
  by (simp add: analysis_defs Let_def split: analysis_splits)

lemma run_Some:
  assumes "fst (run_futfw_analysis e symbol st) = Some d"
  shows "missing_field required_fields d = None"
  using assms by (simp add: analysis_defs Let_def split: analysis_splits)

lemma send_calls: "calls (snd (send_to_webhook e d st)) = calls st @ [WebhookPost d 30]"
  by (simp add: send_to_webhook_def Let_def split: analysis_splits)



lemma run_nonempty: "fst (run_futfw_analysis e symbol st) = Some d \<Longrightarrow> d \<noteq> []"
  by (auto dest!: run_Some simp: required_fields_def dict_has_def)

lemma process_symbol_skip:
  assumes "fst (run_futfw_analysis e symbol (log_message (Processing symbol) SYSTEM st)) = None"
  shows "process_symbol e symbol (s, f) st =
           ((s, f + 1),
            log_message (Rule (replicate 60 CHR ''-'')) SYSTEM
              (log_message (Skipping symbol) (JStr symbol)
                (snd (run_futfw_analysis e symbol (log_message (Processing symbol) SYSTEM st)))))"
  using assms by (simp add: process_symbol_def Let_def case_prod_beta)

lemma process_symbol_send:
  assumes "fst (run_futfw_analysis e symbol (log_message (Processing symbol) SYSTEM st)) = Some d"
  shows "process_symbol e symbol (s, f) st =
           ((if fst (send_to_webhook e d
                      (snd (run_futfw_analysis e symbol (log_message (Processing symbol) SYSTEM st))))
             then (s + 1, f) else (s, f + 1)),
            log_message (Rule (replicate 60 CHR ''-'')) SYSTEM
              (snd (send_to_webhook e d
                     (snd (run_futfw_analysis e symbol (log_message (Processing symbol) SYSTEM st))))))"
  using assms run_nonempty[OF assms]
  by (simp add: process_symbol_def Let_def case_prod_beta)



lemma process_symbol_calls:
  "calls (snd (process_symbol e symbol (s, f) st)) =
     calls st @ ChatCompletion symbol #
       (case fst (run_futfw_analysis e symbol (log_message (Processing symbol) SYSTEM st)) of
          None \<Rightarrow> [] | Some d \<Rightarrow> [WebhookPost d 30])"
proof (cases "fst (run_futfw_analysis e symbol (log_message (Processing symbol) SYSTEM st))")
  case None
  then show ?thesis by (simp add: process_symbol_skip run_calls)
next
  case (Some d)
  then show ?thesis by (simp add: process_symbol_send run_calls send_calls)
qed



lemma symbols_loop_chats:
  "filter is_chat (calls (snd (symbols_loop e symbols counts st))) =
     filter is_chat (calls st) @ map ChatCompletion symbols"
proof (induction symbols arbitrary: counts st)
  case Nil
  then show ?case by simp
next
  case (Cons symbol rest)
  obtain s f where c: "counts = (s, f)" by (cases counts)
  obtain c1 st1 where p: "process_symbol e symbol (s, f) st = (c1, st1)"
    by (metis prod.exhaust)
  from process_symbol_calls[of e symbol s f st] p
  have "filter is_chat (calls st1) = filter is_chat (calls st) @ [ChatCompletion symbol]"
    by (simp split: option.splits)
  with Cons.IH[of c1 st1] p c show ?case by simp
qed

lemma symbols_loop_posts:
  assumes "WebhookPost d t \<in> set (calls (snd (symbols_loop e symbols counts st)))"
  shows "WebhookPost d t \<in> set (calls st) \<or> (t = 30 \<and> missing_field required_fields d = None)"
  using assms
proof (induction symbols arbitrary: counts st)
  case Nil
  then show ?case by simp
next
  case (Cons symbol rest)
  obtain s f where c: "counts = (s, f)" by (cases counts)
  obtain c1 st1 where p: "process_symbol e symbol (s, f) st = (c1, st1)"
    by (metis prod.exhaust)
  from Cons.prems p c have "WebhookPost d t \<in> set (calls (snd (symbols_loop e rest c1 st1)))"
    by simp
  from Cons.IH[OF this] show ?case
  proof
    assume "WebhookPost d t \<in> set (calls st1)"
    with process_symbol_calls[of e symbol s f st] p
    show ?thesis by (auto split: option.splits dest: run_Some)
  next
    assume "t = 30 \<and> missing_field required_fields d = None"
    then show ?thesis by simp
  qed
qed

lemma run_Some_source:
  assumes "fst (run_futfw_analysis e symbol st) = Some d"
  shows "\<exists>content json_str. chat_create e (chat_calls st) = Inr content
           \<and> json_candidate (py_strip content) = Some json_str
           \<and> loads e json_str = Inr d"
  using assms by (auto simp: analysis_defs Let_def split: analysis_splits)

section \<open>The two readings of print agree where every tag can be printed\<close>

lemma then_do_simps [simp]:
  "then_do (Inl err, st) f = (Inl err, st)"
  "then_do (Inr x, st) f = f x st"
  by (simp_all add: then_do_def)

lemma log_message'_takes:
  "stdout_takes tag \<Longrightarrow> log_message' m tag st = (Inr (), log_message m tag st)"
  by (simp add: log_message'_def)

lemma log_message'_refuses:
  "\<not> stdout_takes tag \<Longrightarrow> log_message' m tag st = (Inl UnicodeEncodeError, st)"
  by (simp add: log_message'_def)

lemma log_message'_JStr [simp]:
  "log_message' m (JStr s) st = (Inr (), log_message m (JStr s) st)"
  "log_message' m SYSTEM st = (Inr (), log_message m SYSTEM st)"
  by (simp_all add: log_message'_def SYSTEM_def)

text \<open>The analysis never raises: its tag is the symbol it was called with.\<close>

lemma run_futfw_analysis'_agrees:
  "run_futfw_analysis' e symbol st =
     (Inr (fst (run_futfw_analysis e symbol st)), snd (run_futfw_analysis e symbol st))"
  by (simp add: run_futfw_analysis'_def analysis_try'_def analysis_defs Let_def
           split: analysis_splits)

text \<open>The webhook step is the one above when its tag can be printed, and raises otherwise.\<close>

lemma send_to_webhook'_agrees:
  assumes "stdout_takes (dict_get analysis ''symbol'' (JStr ''UNKNOWN''))"
  shows "send_to_webhook' e analysis st =
           (Inr (fst (send_to_webhook e analysis st)), snd (send_to_webhook e analysis st))"
  using assms
  by (simp add: send_to_webhook'_def webhook_try'_def send_to_webhook_def Let_def
        log_message'_takes split: analysis_splits)

lemma send_to_webhook'_raises:
  assumes "\<not> stdout_takes (dict_get analysis ''symbol'' (JStr ''UNKNOWN''))"
  shows "send_to_webhook' e analysis st = (Inl UnicodeEncodeError, st)"
  using assms
  by (simp add: send_to_webhook'_def webhook_try'_def Let_def log_message'_refuses
        UnicodeEncodeError_def)

lemma process_symbol'_agrees:
  assumes "printable_replies e"
  shows "process_symbol' e symbol counts st =
           (Inr (fst (process_symbol e symbol counts st)), snd (process_symbol e symbol counts st))"
proof -
  obtain s f where c: "counts = (s, f)" by (cases counts)
  let ?st1 = "log_message (Processing symbol) SYSTEM st"
  show ?thesis
  proof (cases "fst (run_futfw_analysis e symbol ?st1)")
    case None
    then show ?thesis
      unfolding c process_symbol_skip[OF None]
      by (simp add: process_symbol'_def run_futfw_analysis'_agrees)
  next
    case (Some d)
    from run_Some_source[OF Some] assms
    have t: "stdout_takes (dict_get d ''symbol'' (JStr ''UNKNOWN''))"
      by (auto simp: printable_replies_def)
    from Some run_nonempty[OF Some] show ?thesis
      unfolding c process_symbol_send[OF Some]
      by (simp add: process_symbol'_def run_futfw_analysis'_agrees send_to_webhook'_agrees[OF t])
  qed
qed

lemma symbols_loop'_agrees:
  assumes "printable_replies e"
  shows "symbols_loop' e symbols counts st =
           (Inr (fst (symbols_loop e symbols counts st)), snd (symbols_loop e symbols counts st))"
  by (induction symbols arbitrary: counts st)
     (simp_all add: process_symbol'_agrees[OF assms] case_prod_beta)

lemma main'_agrees:
  assumes "printable_replies e"
  shows "main' e st = (Inr (fst (main e st)), snd (main e st))"
  by (simp add: main'_def banner'_def main_def banner_def main_loop_def Let_def
        symbols_loop'_agrees[OF assms] case_prod_beta)

text \<open>
  So a run in which every record's symbol can be printed is not aborted, and it calls the
  completion service once for every symbol, in order.
\<close>

lemma printable_run_attempts_every_symbol:
  assumes "printable_replies e"
    and "environ e ''PERPLEXITY_API_KEY'' = Some k" and "k \<noteq> []"
  shows "fst (main' e st) = Inr (fst (main e st))"
    and "filter is_chat (calls (snd (main' e st)))
           = filter is_chat (calls st) @ map ChatCompletion SYMBOLS"
proof -
  show "fst (main' e st) = Inr (fst (main e st))"
    by (simp add: main'_agrees[OF assms(1)])
  have "calls (snd (main e st)) = calls (snd (main_loop e (banner st)))"
    using assms(2,3) by (simp add: main_def Let_def case_prod_beta)
  then show "filter is_chat (calls (snd (main' e st)))
           = filter is_chat (calls st) @ map ChatCompletion SYMBOLS"
    by (simp add: main'_agrees[OF assms(1)] main_loop_def symbols_loop_chats banner_def)
qed

section \<open>The claims\<close>

subsection \<open>C1: what the analysis returns\<close>

text \<open>
  Claim C1 says that \<open>run_futfw_analysis\<close> returns either a record whose \<open>symbol\<close> equals
  the requested symbol or \<open>None\<close>, and never a record that lacks a required key. The
  function never compares the record's \<open>symbol\<close> with its argument, so the first half fails.
  Claim C1 as amended: for every symbol, environment and state, whatever
  \<open>run_futfw_analysis\<close> returns other than \<open>None\<close> is the dict that \<open>json.loads\<close> gave for
  the candidate extracted from the response to this call, and that dict holds all nine
  required keys. Its \<open>symbol\<close> is therefore the response's, whatever symbol was asked for.
\<close>

theorem analysis_returns_none_or_complete_record:
  assumes "fst (run_futfw_analysis e symbol st) = Some d"
  shows "(\<forall>key \<in> {''symbol'', ''trend_1h'', ''trend_15m'', ''current_price'', ''entry_price'',
                   ''stop_loss'', ''take_profit'', ''support_levels'', ''resistance_levels''}.
            dict_has key d)
         \<and> (\<exists>content json_str.
               chat_create e (chat_calls st) = Inr content
               \<and> json_candidate (py_strip content) = Some json_str
               \<and> loads e json_str = Inr d)"
proof -
  from run_Some[OF assms] have "\<forall>key\<in>set required_fields. dict_has key d"
    by (simp only: missing_field_None)
  then have "\<forall>key \<in> {''symbol'', ''trend_1h'', ''trend_15m'', ''current_price'', ''entry_price'',
                   ''stop_loss'', ''take_profit'', ''support_levels'', ''resistance_levels''}.
            dict_has key d"
    by (simp add: required_fields_def)
  with run_Some_source[OF assms] show ?thesis by blast
qed

theorem analysis_returns_none_or_complete_record_witness:
  "fst (run_futfw_analysis always_good ''MGC1'' fresh) = Some good_record
   \<and> dict_has ''symbol'' good_record \<and> dict_has ''resistance_levels'' good_record
   \<and> chat_create always_good (chat_calls fresh) = Inr good_reply
   \<and> json_candidate (py_strip good_reply) = Some good_reply
   \<and> loads always_good good_reply = Inr good_record"
proof -
  have h: "fst (run_futfw_analysis always_good ''MGC1'' fresh) = Some good_record"
    by code_simp
  have c: "chat_create always_good (chat_calls fresh) = Inr good_reply"
    by (simp add: always_good_def answering_def)
  have j: "json_candidate (py_strip good_reply) = Some good_reply" by code_simp
  have l: "loads always_good good_reply = Inr good_record" by code_simp
  from analysis_returns_none_or_complete_record[OF h] h c j l show ?thesis by simp
qed

text \<open>
  Claim C1 as stated fails: asked for \<open>MGC1\<close>, and answered by the service with a complete
  object whose \<open>symbol\<close> is \<open>X\<close>, the function returns that object.
\<close>

theorem analysis_symbol_not_checked_counterexample:
  "fst (run_futfw_analysis always_good ''MGC1'' fresh) = Some good_record
   \<and> dict_get good_record ''symbol'' (JStr ''UNKNOWN'') = JStr ''X''
   \<and> JStr ''X'' \<noteq> JStr ''MGC1''"
  by code_simp

subsection \<open>C2: the extraction order\<close>



subsection \<open>C3: the exit status\<close>



subsection \<open>C4: validation by key presence\<close>

text \<open>
  Claim C4: once the response has been received, a candidate found and parsed, the
  parsed object is returned exactly when it holds all nine keys, and nothing is returned
  otherwise; in that case the last line printed names a required key that the object does
  not hold. \<open>entry_signal\<close> is not among the required keys.
\<close>

theorem record_valid_iff_nine_keys_present:
  assumes "chat_create e (chat_calls st) = Inr content"
    and "json_candidate (py_strip content) = Some json_str"
    and "loads e json_str = Inr d"
  shows "fst (run_futfw_analysis e symbol st) =
           (if \<forall>key \<in> {''symbol'', ''trend_1h'', ''trend_15m'', ''current_price'',
                          ''entry_price'', ''stop_loss'', ''take_profit'', ''support_levels'',
                          ''resistance_levels''}. dict_has key d
            then Some d else None)
         \<and> (fst (run_futfw_analysis e symbol st) = None \<longrightarrow>
              (\<exists>key \<in> set required_fields. \<not> dict_has key d \<and>
                 last (console (snd (run_futfw_analysis e symbol st)))
                   = (JStr symbol, MissingRequiredField key)))
         \<and> ''entry_signal'' \<notin> set required_fields"
proof -
  have keys: "(\<forall>key \<in> {''symbol'', ''trend_1h'', ''trend_15m'', ''current_price'',
                          ''entry_price'', ''stop_loss'', ''take_profit'', ''support_levels'',
                          ''resistance_levels''}. dict_has key d)
              \<longleftrightarrow> missing_field required_fields d = None"
    unfolding missing_field_None by (simp add: required_fields_def)
  show ?thesis
  proof (cases "missing_field required_fields d")
    case None
    then have "fst (run_futfw_analysis e symbol st) = Some d"
      using assms by (simp add: analysis_defs Let_def)
    with None keys show ?thesis by (simp add: required_fields_def)
  next
    case (Some key)
    then have r: "run_futfw_analysis e symbol st =
        (None, log_message (MissingRequiredField key) (JStr symbol)
                 (log_message ReceivedResponse (JStr symbol)
                    (call (ChatCompletion symbol) (log_message StartingAnalysis (JStr symbol) st))))"
      using assms by (simp add: analysis_defs Let_def)
    from missing_field_Some[OF Some] have "key \<in> set required_fields" "\<not> dict_has key d"
      by simp_all
    moreover have "last (console (snd (run_futfw_analysis e symbol st)))
                     = (JStr symbol, MissingRequiredField key)"
      unfolding r by simp
    moreover have "fst (run_futfw_analysis e symbol st) = None" unfolding r by simp
    moreover have "\<not> (\<forall>key \<in> {''symbol'', ''trend_1h'', ''trend_15m'', ''current_price'',
                          ''entry_price'', ''stop_loss'', ''take_profit'', ''support_levels'',
                          ''resistance_levels''}. dict_has key d)"
      unfolding keys using Some by simp
    moreover have "''entry_signal'' \<notin> set required_fields" by (simp add: required_fields_def)
    ultimately show ?thesis by (simp only: if_False simp_thms) blast
  qed
qed

theorem record_valid_iff_nine_keys_present_witness:
  "fst (run_futfw_analysis always_good ''MGC1'' fresh) = Some good_record
   \<and> fst (run_futfw_analysis no_take_profit ''MGC1'' fresh) = None
   \<and> last (console (snd (run_futfw_analysis no_take_profit ''MGC1'' fresh)))
       = (JStr ''MGC1'', MissingRequiredField ''take_profit'')
   \<and> \<not> dict_has ''entry_signal'' good_record"
proof -
  have a1: "chat_create always_good (chat_calls fresh) = Inr good_reply"
    by (simp add: always_good_def answering_def)
  have a2: "json_candidate (py_strip good_reply) = Some good_reply" by code_simp
  have a3: "loads always_good good_reply = Inr good_record" by code_simp
  have a4: "\<forall>key \<in> {''symbol'', ''trend_1h'', ''trend_15m'', ''current_price'',
                          ''entry_price'', ''stop_loss'', ''take_profit'', ''support_levels'',
                          ''resistance_levels''}. dict_has key good_record"
    by code_simp
  have g: "fst (run_futfw_analysis always_good ''MGC1'' fresh) = Some good_record"
    using record_valid_iff_nine_keys_present[OF a1 a2 a3, of "''MGC1''"] a4 by simp
  have b: "fst (run_futfw_analysis no_take_profit ''MGC1'' fresh) = None
   \<and> last (console (snd (run_futfw_analysis no_take_profit ''MGC1'' fresh)))
       = (JStr ''MGC1'', MissingRequiredField ''take_profit'')"
    by code_simp
  have c: "\<not> dict_has ''entry_signal'' good_record" by code_simp
  from g b c show ?thesis by simp
qed

subsection \<open>C5: the webhook\<close>

text \<open>
  Claim C5: \<open>send_to_webhook\<close> returns \<open>True\<close> exactly when the post answers with status
  200. Any other status is reported on the console with its value; a timeout is reported by
  a line of its own, different from the line of every other exception; and the one post
  the function makes carries the timeout 30.
\<close>

theorem webhook_success_iff_status_200:
  "(fst (send_to_webhook e analysis st) \<longleftrightarrow> post e (post_calls st) = Inr 200)
   \<and> (post e (post_calls st) = Inr code \<and> code \<noteq> 200 \<longrightarrow>
        last (console (snd (send_to_webhook e analysis st)))
          = (dict_get analysis ''symbol'' (JStr ''UNKNOWN''), WebhookHttpError code))
   \<and> (post e (post_calls st) = Inl (Timeout m) \<longrightarrow>
        last (console (snd (send_to_webhook e analysis st)))
          = (dict_get analysis ''symbol'' (JStr ''UNKNOWN''), WebhookTimeout))
   \<and> (post e (post_calls st) = Inl err \<and> (\<forall>m'. err \<noteq> Timeout m') \<longrightarrow>
        last (console (snd (send_to_webhook e analysis st)))
          = (dict_get analysis ''symbol'' (JStr ''UNKNOWN''), WebhookError (exc_str err)))
   \<and> (\<forall>text. WebhookTimeout \<noteq> WebhookError text)
   \<and> calls (snd (send_to_webhook e analysis st)) = calls st @ [WebhookPost analysis 30]"
  by (auto simp: send_to_webhook_def Let_def split: analysis_splits)

theorem webhook_success_iff_status_200_witness:
  "fst (send_to_webhook (webhook_answers (Inr 200)) good_record fresh)
   \<and> \<not> fst (send_to_webhook (webhook_answers (Inr 201)) good_record fresh)
   \<and> last (console (snd (send_to_webhook (webhook_answers (Inr 500)) good_record fresh)))
       = (JStr ''X'', WebhookHttpError 500)
   \<and> last (console (snd (send_to_webhook (webhook_answers (Inl (Timeout ''timed out'')))
                           good_record fresh)))
       = (JStr ''X'', WebhookTimeout)
   \<and> last (console (snd (send_to_webhook
         (webhook_answers (Inl (OtherException ''connection refused''))) good_record fresh)))
       = (JStr ''X'', WebhookError ''connection refused'')"
proof -
  have p: "\<And>r. post (webhook_answers r) (post_calls fresh) = r"
    by (simp add: webhook_answers_def answering_def)
  have t: "dict_get good_record ''symbol'' (JStr ''UNKNOWN'') = JStr ''X''" by code_simp
  from webhook_success_iff_status_200[of "webhook_answers (Inr 200)" good_record fresh]
  have 1: "fst (send_to_webhook (webhook_answers (Inr 200)) good_record fresh)"
    by (simp add: p)
  from webhook_success_iff_status_200[of "webhook_answers (Inr 201)" good_record fresh]
  have 2: "\<not> fst (send_to_webhook (webhook_answers (Inr 201)) good_record fresh)"
    by (simp add: p)
  from webhook_success_iff_status_200[of "webhook_answers (Inr 500)" good_record fresh 500]
  have 3: "last (console (snd (send_to_webhook (webhook_answers (Inr 500)) good_record fresh)))
       = (JStr ''X'', WebhookHttpError 500)"
    by (simp add: p t)
  from webhook_success_iff_status_200[of "webhook_answers (Inl (Timeout ''timed out''))"
         good_record fresh _ "''timed out''"]
  have 4: "last (console (snd (send_to_webhook (webhook_answers (Inl (Timeout ''timed out'')))
                                 good_record fresh)))
       = (JStr ''X'', WebhookTimeout)"
    by (simp add: p t)
  from webhook_success_iff_status_200[of
         "webhook_answers (Inl (OtherException ''connection refused''))"
         good_record fresh _ _ "OtherException ''connection refused''"]
  have 5: "last (console (snd (send_to_webhook
         (webhook_answers (Inl (OtherException ''connection refused''))) good_record fresh)))
       = (JStr ''X'', WebhookError ''connection refused'')"
    by (simp add: p t)
  from 1 2 3 4 5 show ?thesis by simp
qed

subsection \<open>C6: the missing credential\<close>

text \<open>
  Claim C6: when \<open>PERPLEXITY_API_KEY\<close> is not in the environment, \<open>main\<close> exits with
  status 1 having made no client call and having printed four lines only, all tagged
  \<open>SYSTEM\<close>: the banner and the error. No symbol is processed and no line names one.
\<close>

theorem missing_credential_aborts_before_any_symbol:
  assumes "environ e ''PERPLEXITY_API_KEY'' = None"
  shows "fst (main e st) = 1
         \<and> calls (snd (main e st)) = calls st
         \<and> console (snd (main e st)) =
             console st @ [(SYSTEM, Rule (replicate 60 CHR ''='')), (SYSTEM, RunStarted),
                           (SYSTEM, Rule (replicate 60 CHR ''='')), (SYSTEM, CredentialMissing)]"
  using assms by (simp add: main_def banner_def Let_def)

theorem missing_credential_aborts_before_any_symbol_witness:
  "main no_credential fresh =
     (1, \<lparr>console = [(JStr ''SYSTEM'', Rule (replicate 60 CHR ''='')),
                      (JStr ''SYSTEM'', RunStarted),
                      (JStr ''SYSTEM'', Rule (replicate 60 CHR ''='')),
                      (JStr ''SYSTEM'', CredentialMissing)],
          calls = []\<rparr>)"
proof -
  have h: "environ no_credential ''PERPLEXITY_API_KEY'' = None"
    by (simp add: no_credential_def)
  from missing_credential_aborts_before_any_symbol[OF h, of fresh]
  show ?thesis by (cases "main no_credential fresh") (simp add: fresh_def SYSTEM_def)
qed

subsection \<open>C7: failures stay with their symbol\<close>

text \<open>
  Claim C7 says that every failure of one symbol is caught at that symbol, counts as its
  failure and never aborts the run. The analysis does keep that promise: it never raises
  (lemma \<open>run_futfw_analysis'_agrees\<close>). The webhook step does not. Its \<open>try\<close> catches what
  the print of line 150 raises, but both handlers print a line with the same tag before
  they return \<open>False\<close>, and what that print raises leaves \<open>send_to_webhook\<close>, the loop,
  which has no \<open>try\<close>, and \<open>main\<close>. Claim C7 at such an input: the completion service
  answers with a complete object whose \<open>symbol\<close> is a lone surrogate. The analysis of
  \<open>MGC1\<close> returns the record; \<open>send_to_webhook\<close> raises \<open>UnicodeEncodeError\<close> instead of
  returning; \<open>main\<close> ends with that exception, having called the completion service for
  \<open>MGC1\<close> only, so the three symbols after it are never attempted.
\<close>

theorem surrogate_symbol_aborts_the_run:
  "loads lone_surrogate surrogate_reply = Inr surrogate_record
   \<and> fst (run_futfw_analysis' lone_surrogate ''MGC1'' fresh) = Inr (Some surrogate_record)
   \<and> fst (send_to_webhook' lone_surrogate surrogate_record fresh) = Inl UnicodeEncodeError
   \<and> fst (main' lone_surrogate fresh) = Inl UnicodeEncodeError
   \<and> calls (snd (main' lone_surrogate fresh)) = [ChatCompletion ''MGC1'']"
  by code_simp

subsection \<open>C8: publishing only what was analysed\<close>

text \<open>
  Claim C8: an iteration whose analysis returns \<open>None\<close> makes the completion call and no
  other client call, so the webhook is not reached for that symbol; and every post made by
  the loop, hence by a whole run, carries a record that holds all required keys.
\<close>

theorem publisher_runs_only_on_valid_record:
  "(fst (run_futfw_analysis e symbol (log_message (Processing symbol) SYSTEM st)) = None \<longrightarrow>
      calls (snd (process_symbol e symbol counts st)) = calls st @ [ChatCompletion symbol])
   \<and> (\<forall>d t. WebhookPost d t \<in> set (calls (snd (symbols_loop e symbols counts st))) \<longrightarrow>
         WebhookPost d t \<in> set (calls st) \<or> (\<forall>key \<in> set required_fields. dict_has key d))
   \<and> (\<forall>d t. WebhookPost d t \<in> set (calls (snd (main e fresh))) \<longrightarrow>
         (\<forall>key \<in> set required_fields. dict_has key d))"
proof (intro conjI impI allI)
  assume "fst (run_futfw_analysis e symbol (log_message (Processing symbol) SYSTEM st)) = None"
  then show "calls (snd (process_symbol e symbol counts st)) = calls st @ [ChatCompletion symbol]"
    using process_symbol_calls[of e symbol "fst counts" "snd counts" st] by simp
next
  fix d t
  assume "WebhookPost d t \<in> set (calls (snd (symbols_loop e symbols counts st)))"
  from symbols_loop_posts[OF this]
  show "WebhookPost d t \<in> set (calls st) \<or> (\<forall>key \<in> set required_fields. dict_has key d)"
    by (auto simp: missing_field_None)
next
  fix d t
  assume a: "WebhookPost d t \<in> set (calls (snd (main e fresh)))"
  have "calls (snd (main e fresh)) = []
        \<or> calls (snd (main e fresh)) = calls (snd (main_loop e (banner fresh)))"
    by (simp add: main_def Let_def case_prod_beta banner_def fresh_def)
  with a have "WebhookPost d t \<in> set (calls (snd (symbols_loop e SYMBOLS (0, 0) (banner fresh))))"
    by (auto simp: main_loop_def)
  from symbols_loop_posts[OF this]
  show "\<forall>key \<in> set required_fields. dict_has key d"
    by (auto simp: missing_field_None banner_def fresh_def)
qed

theorem publisher_runs_only_on_valid_record_witness:
  "fst (run_futfw_analysis always_failing ''MGC1''
          (log_message (Processing ''MGC1'') SYSTEM fresh)) = None
   \<and> calls (snd (process_symbol always_failing ''MGC1'' (0, 0) fresh)) = [ChatCompletion ''MGC1'']
   \<and> calls (snd (main three_of_four fresh))
       = [ChatCompletion ''MGC1'', WebhookPost good_record 30,
          ChatCompletion ''MYM1'', WebhookPost good_record 30,
          ChatCompletion ''MNQ1'',
          ChatCompletion ''XAUTUSDT.P'', WebhookPost good_record 30]"
proof -
  have h: "fst (run_futfw_analysis always_failing ''MGC1''
                 (log_message (Processing ''MGC1'') SYSTEM fresh)) = None"
    by code_simp
  have v: "calls (snd (main three_of_four fresh))
       = [ChatCompletion ''MGC1'', WebhookPost good_record 30,
          ChatCompletion ''MYM1'', WebhookPost good_record 30,
          ChatCompletion ''MNQ1'',
          ChatCompletion ''XAUTUSDT.P'', WebhookPost good_record 30]"
    by code_simp
  from publisher_runs_only_on_valid_record[of always_failing "''MGC1''" fresh "(0, 0)"] h
  have "calls (snd (process_symbol always_failing ''MGC1'' (0, 0) fresh))
          = calls fresh @ [ChatCompletion ''MGC1'']"
    by blast
  with h v show ?thesis by (simp add: fresh_def)
qed

subsection \<open>C9: the two counters\<close>



subsection \<open>C10: the fence that is never closed\<close>

text \<open>
  Claim C10: when the text has an opening tag (the json tag, or else the plain fence) and
  no fence after it, the search for the closing fence returns \<open>-1\<close>, the step does not
  fail, and what it keeps is the text after the opening tag without its last character
  (then stripped); the brace search goes on with that text. Here \<open>rest\<close> is the text after
  the first occurrence of the tag.
\<close>

theorem unclosed_fence_drops_last_character:
  "(split_on ''```json'' text = Some (pre, rest) \<and> split_on ''```'' rest = None \<longrightarrow>
      py_find text ''```'' (py_find text ''```json'' 0 + 7) = -1 \<and>
      strip_fence text = py_strip (butlast rest) \<and>
      json_candidate text = json_bounds (py_strip (butlast rest)))
   \<and>
   (split_on ''```json'' text = None \<and> split_on ''```'' text = Some (pre, rest) \<and>
    split_on ''```'' rest = None \<longrightarrow>
      py_find text ''```'' (py_find text ''```'' 0 + 3) = -1 \<and>
      strip_fence text = py_strip (butlast rest) \<and>
      json_candidate text = json_bounds (py_strip (butlast rest)))"
proof (intro conjI impI; elim conjE)
  assume s: "split_on ''```json'' text = Some (pre, rest)" and n: "split_on ''```'' rest = None"
  have t: "text = (pre @ ''```json'') @ rest" and f: "py_find text ''```json'' 0 = int (length pre)"
    using split_on_append[OF s] split_on_find[OF s, of 0] by (simp_all add: py_find_0)
  have st: "py_find text ''```json'' 0 + 7 = int (length (pre @ ''```json''))"
    using f by simp
  show "py_find text ''```'' (py_find text ''```json'' 0 + 7) = -1"
    unfolding st unfolding t by (rule fence_open(1)[OF n])
  show sf: "strip_fence text = py_strip (butlast rest)"
    unfolding strip_fence_json[OF s] fence_open(2)[OF n] ..
  show "json_candidate text = json_bounds (py_strip (butlast rest))"
    by (simp add: json_candidate_def sf)
next
  assume j: "split_on ''```json'' text = None"
    and s: "split_on ''```'' text = Some (pre, rest)" and n: "split_on ''```'' rest = None"
  have t: "text = (pre @ ''```'') @ rest" and f: "py_find text ''```'' 0 = int (length pre)"
    using split_on_append[OF s] split_on_find[OF s, of 0] by (simp_all add: py_find_0)
  have st: "py_find text ''```'' 0 + 3 = int (length (pre @ ''```''))"
    using f by simp
  show "py_find text ''```'' (py_find text ''```'' 0 + 3) = -1"
    unfolding st unfolding t by (rule fence_open(1)[OF n])
  show sf: "strip_fence text = py_strip (butlast rest)"
    unfolding strip_fence_plain[OF j s] fence_open(2)[OF n] ..
  show "json_candidate text = json_bounds (py_strip (butlast rest))"
    by (simp add: json_candidate_def sf)
qed

theorem unclosed_fence_drops_last_character_witness:
  "split_on ''```json'' unclosed_reply = Some ([], '' {\"a\":1}'')
   \<and> split_on ''```'' '' {\"a\":1}'' = None
   \<and> strip_fence unclosed_reply = ''{\"a\":1''
   \<and> json_candidate unclosed_reply = None"
proof -
  have h1: "split_on ''```json'' unclosed_reply = Some ([], '' {\"a\":1}'')" by code_simp
  have h2: "split_on ''```'' '' {\"a\":1}'' = None" by code_simp
  have v1: "py_strip (butlast '' {\"a\":1}'') = ''{\"a\":1''" by code_simp
  have v2: "json_bounds ''{\"a\":1'' = None" by code_simp
  from unclosed_fence_drops_last_character[of unclosed_reply "[]" "'' {\"a\":1}''"] h1 h2
  have "strip_fence unclosed_reply = py_strip (butlast '' {\"a\":1}'')"
    and "json_candidate unclosed_reply = json_bounds (py_strip (butlast '' {\"a\":1}''))"
    by blast+
  with h1 h2 v1 v2 show ?thesis by simp
qed

end
